theory Spec2Isabelle
  imports Main
begin

section \<open>A two-route HTTP service: data\<close>

text \<open>
  The service of \<^verbatim>\<open>app.py\<close> answers two paths with small JSON objects. A Python
  dictionary literal keeps the order in which its keys are written, so an object is an
  association list; the only values the program ever stores are strings.
\<close>

datatype json = JStr string | JObj "(string \<times> json) list"

text \<open>
  What a response carries: a JSON document, the framework's own error page, or nothing
  (the answer to HEAD and OPTIONS).
\<close>

datatype content = Json json | ErrorPage | Empty

record response =
  status :: nat
  mimetype :: string
  body :: content

datatype http_method = GET | HEAD | OPTIONS | POST | PUT | DELETE | PATCH | TRACE | CONNECT

text \<open>
  A request as the handlers could see it. Neither handler of the source takes a parameter
  or reads the request object, so every field beyond method and path is carried along
  only to be ignored.
\<close>

record request =
  req_method :: http_method
  req_path :: string
  req_query :: string
  req_headers :: "(string \<times> string) list"
  req_body :: string

text \<open>\<^verbatim>\<open>socket.gethostname()\<close> raises \<^verbatim>\<open>OSError\<close> when the system call fails.\<close>

datatype exn = OSError

text \<open>
  A URL rule of the application: the path it answers, the methods it accepts, the name of
  the view function it leads to, and whether OPTIONS is answered by the framework itself.
\<close>

record rule =
  rule_path :: string
  rule_methods :: "http_method list"
  rule_endpoint :: string
  automatic_options :: bool

text \<open>The application object, the only value the module keeps at top level.\<close>

record flask =
  url_map :: "rule list"

text \<open>
  What a run can be observed to do besides answering: a hostname lookup asked of the
  operating system, and the call of a view function.
\<close>

datatype effect = Lookup | Call string

text \<open>
  The world a request is handled in: the program's own state (\<open>prog\<close>), what the
  operating system would answer to a hostname lookup right now (\<open>host_name\<close>, a name or
  a failure), the process environment and command line (which the source imports
  \<^verbatim>\<open>os\<close> for but never reads), and the history of effects so far, oldest first.
\<close>

record world =
  prog :: flask
  host_name :: "exn + string"
  environ :: "(string \<times> string) list"
  argv :: "string list"
  effects :: "effect list"

type_synonym view = "world \<Rightarrow> (exn + response) \<times> world"

section \<open>The parts of the framework and of the operating system the source calls\<close>

text \<open>
  \<^verbatim>\<open>socket.gethostname()\<close>: one system call per call, answering what the host is named
  at that moment, or failing.
\<close>

definition gethostname :: "world \<Rightarrow> (exn + string) \<times> world" where
  "gethostname w = (host_name w, w\<lparr>effects := effects w @ [Lookup]\<rparr>)"

text \<open>
  Modelled from the spec: the framework's \<^verbatim>\<open>jsonify\<close> is not under \<^verbatim>\<open>src/\<close>. The spec
  has both handlers return HTTP 200 with a JSON body holding the dictionary they pass;
  the body is kept as a JSON value, its rendering into bytes is left to the serialiser.
\<close>

definition jsonify :: "(string \<times> json) list \<Rightarrow> response" where
  "jsonify d = \<lparr>status = 200, mimetype = ''application/json'', body = Json (JObj d)\<rparr>"

text \<open>
  Modelled from the spec: the framework's application constructor \<^verbatim>\<open>Flask(__name__)\<close>
  is not under \<^verbatim>\<open>src/\<close>. The spec's server routes the two paths the program registers
  and nothing else, so the application starts with no rule at all; the rule for static
  files that the framework registers by itself is no part of the spec's interface and
  is left out.
\<close>

definition Flask :: flask where
  "Flask = \<lparr>url_map = []\<rparr>"

text \<open>
  Modelled from the spec: the framework's \<^verbatim>\<open>route\<close> decorator is not under \<^verbatim>\<open>src/\<close>.
  It appends a rule for the path. When the call names no methods the rule answers GET;
  the framework adds HEAD to a rule that answers GET and answers OPTIONS itself unless
  the rule lists it (the spec's interface table gives GET for both routes and is silent
  on the other two, which are the framework's documented defaults).
\<close>

definition route :: "string \<Rightarrow> http_method list option \<Rightarrow> string \<Rightarrow> flask \<Rightarrow> flask" where
  "route path methods endpoint a =
     (let ms = (case methods of None \<Rightarrow> [GET] | Some l \<Rightarrow> l);
          ms1 = (if GET \<in> set ms \<and> HEAD \<notin> set ms then ms @ [HEAD] else ms);
          auto_opt = (OPTIONS \<notin> set ms1);
          ms2 = (if auto_opt then ms1 @ [OPTIONS] else ms1)
      in a\<lparr>url_map := url_map a @
           [\<lparr>rule_path = path, rule_methods = ms2, rule_endpoint = endpoint,
             automatic_options = auto_opt\<rparr>]\<rparr>)"

section \<open>The module \<^verbatim>\<open>app.py\<close>\<close>

text \<open>
  \<^verbatim>\<open>def hello()\<close>: look the hostname up, then answer with the three-key dictionary. There
  is no \<^verbatim>\<open>try\<close> around the lookup, so its failure leaves the function as the exception.
\<close>

definition hello :: view where
  "hello w =
     (case gethostname w of
        (Inl e, w') \<Rightarrow> (Inl e, w')
      | (Inr hostname, w') \<Rightarrow>
          (Inr (jsonify [(''message'', JStr ''Hello from Docker Swarm!''),
                         (''hostname'', JStr hostname),
                         (''version'', JStr ''1.0.0'')]), w'))"

text \<open>\<^verbatim>\<open>def health()\<close>: answer with a constant dictionary.\<close>

definition health :: view where
  "health w = (Inr (jsonify [(''status'', JStr ''healthy'')]), w)"

text \<open>
  The state of the module once it is imported: \<^verbatim>\<open>app = Flask(__name__)\<close>, then the two
  decorators in the order of the file, neither with a \<^verbatim>\<open>methods\<close> argument.
\<close>

definition app :: flask where
  "app = route ''/health'' None ''health'' (route ''/'' None ''hello'' Flask)"

text \<open>The view functions the decorators registered, by endpoint name.\<close>

definition view_functions :: "string \<Rightarrow> view option" where
  "view_functions = map_of [(''hello'', hello), (''health'', health)]"






section \<open>Serving requests\<close>

text \<open>
  Modelled from the spec: the framework's router and request dispatch are not under
  \<^verbatim>\<open>src/\<close>. The router matches the path against the registered rules. A path that no
  rule has is "not found"; a path that a rule has, but under other methods only, is
  "method not allowed" (the framework's documented default; the spec speaks of GET only).
\<close>

datatype routing = Matched rule | NotFound | MethodNotAllowed

fun match_request :: "rule list \<Rightarrow> http_method \<Rightarrow> string \<Rightarrow> bool \<Rightarrow> routing" where
  "match_request [] m p seen = (if seen then MethodNotAllowed else NotFound)"
| "match_request (r # rs) m p seen =
     (if rule_path r = p
      then (if m \<in> set (rule_methods r) then Matched r else match_request rs m p True)
      else match_request rs m p seen)"

text \<open>The framework's default answer for an HTTP error: its own page under that status.\<close>

definition abort :: "nat \<Rightarrow> response" where
  "abort code = \<lparr>status = code, mimetype = ''text/html'', body = ErrorPage\<rparr>"

text \<open>
  Modelled from the spec: one request through the framework. An undefined path gets
  the default 404 and a wrong method the default 405, with no view called. OPTIONS on a
  rule with automatic options is answered by the framework. Otherwise the view runs; an
  exception that leaves it becomes the default 500 (the program registers no error
  handler and runs with \<^verbatim>\<open>debug=False\<close>), a response is passed on, without its body
  for HEAD.
\<close>

definition wsgi_app :: "request \<Rightarrow> world \<Rightarrow> response \<times> world" where
  "wsgi_app rq w =
     (case match_request (url_map (prog w)) (req_method rq) (req_path rq) False of
        NotFound \<Rightarrow> (abort 404, w)
      | MethodNotAllowed \<Rightarrow> (abort 405, w)
      | Matched r \<Rightarrow>
          if automatic_options r \<and> req_method rq = OPTIONS
          then (\<lparr>status = 200, mimetype = ''text/html'', body = Empty\<rparr>, w)
          else (case view_functions (rule_endpoint r) of
                  None \<Rightarrow> (abort 500, w)
                | Some v \<Rightarrow>
                    (case v (w\<lparr>effects := effects w @ [Call (rule_endpoint r)]\<rparr>) of
                       (Inl e, w') \<Rightarrow> (abort 500, w')
                     | (Inr rsp, w') \<Rightarrow>
                         (if req_method rq = HEAD then rsp\<lparr>body := Empty\<rparr> else rsp, w'))))"

text \<open>
  The server's life as a sequence of events: a request arrives, or the environment
  changes what the host is called (or makes the lookup fail). The answers are collected
  in order.
\<close>

datatype event = Req request | Rename "exn + string"

fun serve :: "event list \<Rightarrow> world \<Rightarrow> response list \<times> world" where
  "serve [] w = ([], w)"
| "serve (Req rq # evs) w =
     (case wsgi_app rq w of (rsp, w') \<Rightarrow>
        (case serve evs w' of (rsps, w'') \<Rightarrow> (rsp # rsps, w'')))"
| "serve (Rename h # evs) w = serve evs (w\<lparr>host_name := h\<rparr>)"

text \<open>The hostname a greeting carries, if the response is a greeting at all.\<close>

definition hostname_of :: "response \<Rightarrow> string option" where
  "hostname_of rsp =
     (case body rsp of
        Json (JObj kvs) \<Rightarrow>
          (case map_of kvs ''hostname'' of Some (JStr h) \<Rightarrow> Some h | _ \<Rightarrow> None)
      | _ \<Rightarrow> None)"

text \<open>
  What the host is called once a sequence of events has passed: only a renaming changes
  it.
\<close>

fun name_after :: "event list \<Rightarrow> exn + string \<Rightarrow> exn + string" where
  "name_after [] h = h"
| "name_after (Req rq # evs) h = name_after evs h"
| "name_after (Rename h' # evs) h = name_after evs h'"

text \<open>
  Concrete inputs: the world right after \<^verbatim>\<open>python app.py\<close> has imported the module on a
  host whose lookup answers \<open>h\<close>, and a request with nothing but a method and a path.
\<close>

definition booted :: "exn + string \<Rightarrow> world" where
  "booted h = \<lparr>prog = app, host_name = h, environ = [], argv = [''app.py''], effects = []\<rparr>"

definition plain_request :: "http_method \<Rightarrow> string \<Rightarrow> request" where
  "plain_request m p =
     \<lparr>req_method = m, req_path = p, req_query = [], req_headers = [], req_body = []\<rparr>"

section \<open>Properties\<close>

lemma url_map_app:
  "url_map app =
     [\<lparr>rule_path = ''/'', rule_methods = [GET, HEAD, OPTIONS], rule_endpoint = ''hello'',
       automatic_options = True\<rparr>,
      \<lparr>rule_path = ''/health'', rule_methods = [GET, HEAD, OPTIONS],
       rule_endpoint = ''health'', automatic_options = True\<rparr>]"
  by (simp add: app_def route_def Flask_def)

subsection \<open>Routing of the two registered rules\<close>

lemma match_root:
  "match_request (url_map app) m ''/'' False =
     (if m \<in> {GET, HEAD, OPTIONS}
      then Matched \<lparr>rule_path = ''/'', rule_methods = [GET, HEAD, OPTIONS],
                    rule_endpoint = ''hello'', automatic_options = True\<rparr>
      else MethodNotAllowed)"
  by (simp add: url_map_app)

lemma match_health:
  "match_request (url_map app) m ''/health'' False =
     (if m \<in> {GET, HEAD, OPTIONS}
      then Matched \<lparr>rule_path = ''/health'', rule_methods = [GET, HEAD, OPTIONS],
                    rule_endpoint = ''health'', automatic_options = True\<rparr>
      else MethodNotAllowed)"
  by (simp add: url_map_app)

lemma match_other:
  "p \<noteq> ''/'' \<Longrightarrow> p \<noteq> ''/health'' \<Longrightarrow> match_request (url_map app) m p seen =
     (if seen then MethodNotAllowed else NotFound)"
  by (simp add: url_map_app)

lemma hello_result:
  "hello w =
     (case host_name w of
        Inl e \<Rightarrow> Inl e
      | Inr h \<Rightarrow> Inr (jsonify [(''message'', JStr ''Hello from Docker Swarm!''),
                              (''hostname'', JStr h), (''version'', JStr ''1.0.0'')]),
      w\<lparr>effects := effects w @ [Lookup]\<rparr>)"
  by (simp add: hello_def gethostname_def split: sum.splits)

lemma view_functions_cases:
  "view_functions ep = Some v \<Longrightarrow> v = hello \<or> v = health"
  by (auto simp: view_functions_def split: if_splits)

lemma view_frame:
  assumes "view_functions ep = Some v"
  shows "\<exists>fx. snd (v w) = w\<lparr>effects := effects w @ fx\<rparr>"
proof -
  from assms consider "v = hello" | "v = health" using view_functions_cases by blast
  then show ?thesis
  proof cases
    case 1
    have "snd (hello w) = w\<lparr>effects := effects w @ [Lookup]\<rparr>"
      by (simp add: hello_result)
    then show ?thesis unfolding 1 by blast
  next
    case 2
    have "w = w\<lparr>effects := effects w @ []\<rparr>" by simp
    then show ?thesis unfolding 2 health_def snd_conv by blast
  qed
qed

lemma wsgi_app_frame: "\<exists>fx. snd (wsgi_app rq w) = w\<lparr>effects := effects w @ fx\<rparr>"
proof -
  have triv: "\<exists>fx. w = w\<lparr>effects := effects w @ fx\<rparr>"
    by (rule exI [of _ "[]"]) simp
  show ?thesis
  proof (cases "match_request (url_map (prog w)) (req_method rq) (req_path rq) False")
    case NotFound
    then show ?thesis using triv by (simp add: wsgi_app_def)
  next
    case MethodNotAllowed
    then show ?thesis using triv by (simp add: wsgi_app_def)
  next
    case (Matched r)
    show ?thesis
    proof (cases "automatic_options r \<and> req_method rq = OPTIONS")
      case True
      then show ?thesis using Matched triv by (simp add: wsgi_app_def)
    next
      case False
      show ?thesis
      proof (cases "view_functions (rule_endpoint r)")
        case None
        then show ?thesis using Matched False triv by (simp add: wsgi_app_def)
      next
        case (Some v)
        let ?w = "w\<lparr>effects := effects w @ [Call (rule_endpoint r)]\<rparr>"
        from view_frame [OF Some, of ?w] obtain fx
          where fx: "snd (v ?w) = ?w\<lparr>effects := effects ?w @ fx\<rparr>" by blast
        have "snd (wsgi_app rq w) = snd (v ?w)"
          using Matched False Some
          by (auto simp: wsgi_app_def split: prod.splits sum.splits)
        then have "snd (wsgi_app rq w) = w\<lparr>effects := effects w @ (Call (rule_endpoint r) # fx)\<rparr>"
          using fx by simp
        then show ?thesis by blast
      qed
    qed
  qed
qed

lemma serve_Req:
  "serve (Req rq # evs) w =
     (fst (wsgi_app rq w) # fst (serve evs (snd (wsgi_app rq w))),
      snd (serve evs (snd (wsgi_app rq w))))"
  by (simp split: prod.splits)

lemma wsgi_app_prog: "prog (snd (wsgi_app rq w)) = prog w"
  using wsgi_app_frame [of rq w] by auto

lemma wsgi_app_host_name: "host_name (snd (wsgi_app rq w)) = host_name w"
  using wsgi_app_frame [of rq w] by auto

lemma serve_prog: "prog (snd (serve evs w)) = prog w"
proof (induction evs arbitrary: w)
  case Nil
  show ?case by simp
next
  case (Cons ev evs)
  show ?case
  proof (cases ev)
    case (Req rq)
    have "prog (snd (serve evs (snd (wsgi_app rq w)))) = prog w"
      using Cons.IH [of "snd (wsgi_app rq w)"] by (simp add: wsgi_app_prog)
    then show ?thesis using Req by (simp add: serve_Req del: serve.simps(2))
  next
    case (Rename h)
    then show ?thesis using Cons.IH [of "w\<lparr>host_name := h\<rparr>"] by simp
  qed
qed

lemma serve_host_name: "host_name (snd (serve evs w)) = name_after evs (host_name w)"
proof (induction evs arbitrary: w)
  case Nil
  show ?case by simp
next
  case (Cons ev evs)
  show ?case
  proof (cases ev)
    case (Req rq)
    have "host_name (snd (serve evs (snd (wsgi_app rq w)))) = name_after evs (host_name w)"
      using Cons.IH [of "snd (wsgi_app rq w)"] by (simp add: wsgi_app_host_name)
    then show ?thesis using Req by (simp add: serve_Req del: serve.simps(2))
  next
    case (Rename h)
    then show ?thesis using Cons.IH [of "w\<lparr>host_name := h\<rparr>"] by simp
  qed
qed

lemma serve_append:
  "serve (evs @ evs') w =
     (fst (serve evs w) @ fst (serve evs' (snd (serve evs w))),
      snd (serve evs' (snd (serve evs w))))"
proof (induction evs arbitrary: w)
  case Nil
  show ?case by simp
next
  case (Cons ev evs)
  show ?case
  proof (cases ev)
    case (Req rq)
    then show ?thesis using Cons.IH [of "snd (wsgi_app rq w)"]
      by (simp add: serve_Req del: serve.simps(2))
  next
    case (Rename h)
    then show ?thesis using Cons.IH [of "w\<lparr>host_name := h\<rparr>"] by simp
  qed
qed

lemma wsgi_get_root:
  assumes "prog w = app" and "req_method rq = GET" and "req_path rq = ''/''"
  shows "wsgi_app rq w =
     (case host_name w of
        Inl e \<Rightarrow> abort 500
      | Inr h \<Rightarrow> jsonify [(''message'', JStr ''Hello from Docker Swarm!''),
                         (''hostname'', JStr h), (''version'', JStr ''1.0.0'')],
      w\<lparr>effects := effects w @ [Call ''hello'', Lookup]\<rparr>)"
  using assms
  by (simp add: wsgi_app_def match_root view_functions_def hello_result split: sum.splits)

lemma wsgi_get_health:
  assumes "prog w = app" and "req_method rq = GET" and "req_path rq = ''/health''"
  shows "wsgi_app rq w =
     (jsonify [(''status'', JStr ''healthy'')], w\<lparr>effects := effects w @ [Call ''health'']\<rparr>)"
  using assms
  by (simp add: wsgi_app_def match_health view_functions_def health_def)

lemma serve_requests_frame:
  "\<exists>fx. snd (serve (map Req rqs) w) = w\<lparr>effects := effects w @ fx\<rparr>"
proof (induction rqs arbitrary: w)
  case Nil
  have "w = w\<lparr>effects := effects w @ []\<rparr>" by simp
  then show ?case unfolding list.map serve.simps snd_conv by blast
next
  case (Cons rq rqs)
  obtain fx where fx: "snd (wsgi_app rq w) = w\<lparr>effects := effects w @ fx\<rparr>"
    using wsgi_app_frame by blast
  obtain fx' where fx': "snd (serve (map Req rqs) (snd (wsgi_app rq w))) =
      (snd (wsgi_app rq w))\<lparr>effects := effects (snd (wsgi_app rq w)) @ fx'\<rparr>"
    using Cons.IH by blast
  have "snd (serve (map Req (rq # rqs)) w) = w\<lparr>effects := effects w @ (fx @ fx')\<rparr>"
    using fx fx' by (simp add: serve_Req del: serve.simps(2))
  then show ?case by blast
qed

subsection \<open>The greeting route\<close>

text \<open>
  C1. A GET request to \<open>/\<close>, on a host whose lookup returns the name \<open>h\<close>, is answered
  with status 200 and a JSON object of exactly the three keys \<open>message\<close>, \<open>hostname\<close> and
  \<open>version\<close>: the message is the fixed greeting, the version is \<open>1.0.0\<close>, the hostname is
  \<open>h\<close>.
\<close>

theorem greeting_get_root:
  assumes "prog w = app" and "req_method rq = GET" and "req_path rq = ''/''"
    and "host_name w = Inr h"
  shows "fst (hello w) = Inr (fst (wsgi_app rq w)) \<and>
         status (fst (wsgi_app rq w)) = 200 \<and>
         mimetype (fst (wsgi_app rq w)) = ''application/json'' \<and>
         body (fst (wsgi_app rq w)) =
           Json (JObj [(''message'', JStr ''Hello from Docker Swarm!''),
                       (''hostname'', JStr h),
                       (''version'', JStr ''1.0.0'')])"
  using assms by (simp add: wsgi_get_root hello_result jsonify_def)

theorem greeting_get_root_witness:
  "prog (booted (Inr ''node-7'')) = app \<and>
   req_method (plain_request GET ''/'') = GET \<and>
   req_path (plain_request GET ''/'') = ''/'' \<and>
   host_name (booted (Inr ''node-7'')) = Inr ''node-7'' \<and>
   status (fst (wsgi_app (plain_request GET ''/'') (booted (Inr ''node-7'')))) = 200 \<and>
   body (fst (wsgi_app (plain_request GET ''/'') (booted (Inr ''node-7'')))) =
     Json (JObj [(''message'', JStr ''Hello from Docker Swarm!''),
                 (''hostname'', JStr ''node-7''),
                 (''version'', JStr ''1.0.0'')])"
proof -
  have p: "prog (booted (Inr ''node-7'')) = app" by (simp add: booted_def)
  have m: "req_method (plain_request GET ''/'') = GET" by (simp add: plain_request_def)
  have q: "req_path (plain_request GET ''/'') = ''/''" by (simp add: plain_request_def)
  have n: "host_name (booted (Inr ''node-7'')) = Inr ''node-7''" by (simp add: booted_def)
  from greeting_get_root [OF p m q n] show ?thesis using p m q n by blast
qed

text \<open>
  C3. Each call of the greeting handler asks the operating system once, and nothing is
  remembered between requests: after any history of requests and renamings, a GET
  request to \<open>/\<close> carries the name the host has at that moment, and handling it consists
  of one call of \<open>hello\<close> with one lookup.
\<close>

theorem hostname_looked_up_per_request:
  assumes "prog w = app" and "req_method rq = GET" and "req_path rq = ''/''"
    and "name_after evs (host_name w) = Inr h"
  shows "effects (snd (hello w)) = effects w @ [Lookup] \<and>
         hostname_of (last (fst (serve (evs @ [Req rq]) w))) = Some h \<and>
         effects (snd (serve (evs @ [Req rq]) w)) =
           effects (snd (serve evs w)) @ [Call ''hello'', Lookup]"
proof -
  let ?w = "snd (serve evs w)"
  have p: "prog ?w = app" using assms(1) by (simp add: serve_prog)
  have n: "host_name ?w = Inr h" using assms(4) by (simp add: serve_host_name)
  have step: "wsgi_app rq ?w =
      (jsonify [(''message'', JStr ''Hello from Docker Swarm!''),
                (''hostname'', JStr h), (''version'', JStr ''1.0.0'')],
       ?w\<lparr>effects := effects ?w @ [Call ''hello'', Lookup]\<rparr>)"
    using wsgi_get_root [OF p assms(2) assms(3)] n by simp
  have one: "effects (snd (hello w)) = effects w @ [Lookup]"
    by (simp add: hello_result)
  have resp: "hostname_of (last (fst (serve (evs @ [Req rq]) w))) = Some h"
    by (simp add: serve_append step hostname_of_def jsonify_def)
  have fx: "effects (snd (serve (evs @ [Req rq]) w)) =
      effects ?w @ [Call ''hello'', Lookup]"
    by (simp add: serve_append step)
  from one resp fx show ?thesis by blast
qed

theorem hostname_looked_up_per_request_witness:
  "prog (booted (Inr ''node-7'')) = app \<and>
   name_after [Req (plain_request GET ''/''), Rename (Inr ''node-8'')]
     (host_name (booted (Inr ''node-7''))) = Inr ''node-8'' \<and>
   hostname_of (last (fst (serve
     ([Req (plain_request GET ''/''), Rename (Inr ''node-8'')] @ [Req (plain_request GET ''/'')])
     (booted (Inr ''node-7''))))) = Some ''node-8'' \<and>
   hostname_of (hd (fst (serve
     ([Req (plain_request GET ''/''), Rename (Inr ''node-8'')] @ [Req (plain_request GET ''/'')])
     (booted (Inr ''node-7''))))) = Some ''node-7''"
proof -
  have p: "prog (booted (Inr ''node-7'')) = app" by (simp add: booted_def)
  have m: "req_method (plain_request GET ''/'') = GET" by (simp add: plain_request_def)
  have q: "req_path (plain_request GET ''/'') = ''/''" by (simp add: plain_request_def)
  have n: "name_after [Req (plain_request GET ''/''), Rename (Inr ''node-8'')]
     (host_name (booted (Inr ''node-7''))) = Inr ''node-8''" by simp
  have n0: "host_name (booted (Inr ''node-7'')) = Inr ''node-7''" by (simp add: booted_def)
  have first: "hostname_of (hd (fst (serve
     ([Req (plain_request GET ''/''), Rename (Inr ''node-8'')] @ [Req (plain_request GET ''/'')])
     (booted (Inr ''node-7''))))) = Some ''node-7''"
    by (simp add: serve_Req wsgi_get_root [OF p m q] n0 hostname_of_def jsonify_def
        del: serve.simps(2))
  from hostname_looked_up_per_request [OF p m q n] show ?thesis using p n first by blast
qed

text \<open>
  C5. When the hostname lookup fails during a GET request to \<open>/\<close>, the handler returns
  no response: the exception leaves it as it is, the request is answered with the
  default 500 page, and no greeting is produced.
\<close>

theorem lookup_failure_propagates:
  assumes "prog w = app" and "req_method rq = GET" and "req_path rq = ''/''"
    and "host_name w = Inl e"
  shows "fst (hello w) = Inl e \<and>
         fst (wsgi_app rq w) = abort 500 \<and>
         status (fst (wsgi_app rq w)) = 500 \<and>
         body (fst (wsgi_app rq w)) = ErrorPage \<and>
         hostname_of (fst (wsgi_app rq w)) = None"
  using assms by (simp add: wsgi_get_root hello_result abort_def hostname_of_def)

theorem lookup_failure_propagates_witness:
  "prog (booted (Inl OSError)) = app \<and>
   req_method (plain_request GET ''/'') = GET \<and>
   req_path (plain_request GET ''/'') = ''/'' \<and>
   host_name (booted (Inl OSError)) = Inl OSError \<and>
   fst (hello (booted (Inl OSError))) = Inl OSError \<and>
   status (fst (wsgi_app (plain_request GET ''/'') (booted (Inl OSError)))) = 500 \<and>
   body (fst (wsgi_app (plain_request GET ''/'') (booted (Inl OSError)))) = ErrorPage"
proof -
  have p: "prog (booted (Inl OSError)) = app" by (simp add: booted_def)
  have m: "req_method (plain_request GET ''/'') = GET" by (simp add: plain_request_def)
  have q: "req_path (plain_request GET ''/'') = ''/''" by (simp add: plain_request_def)
  have n: "host_name (booted (Inl OSError)) = Inl OSError" by (simp add: booted_def)
  from lookup_failure_propagates [OF p m q n] show ?thesis using p m q n by blast
qed

text \<open>
  C9. The greeting depends on the hostname lookup alone: two invocations during which
  the lookup returns the same name give the same response, whatever else differs between
  the two worlds and the two requests; so does any rendering of the two bodies into
  bytes.
\<close>

theorem greeting_depends_on_hostname_only:
  assumes "host_name w1 = Inr h" and "host_name w2 = Inr h"
    and "prog w1 = app" and "prog w2 = app"
    and "req_method rq1 = GET" and "req_path rq1 = ''/''"
    and "req_method rq2 = GET" and "req_path rq2 = ''/''"
  shows "fst (hello w1) = fst (hello w2) \<and>
         fst (wsgi_app rq1 w1) = fst (wsgi_app rq2 w2) \<and>
         (dumps :: content \<Rightarrow> string) (body (fst (wsgi_app rq1 w1))) =
           dumps (body (fst (wsgi_app rq2 w2)))"
  using assms by (simp add: wsgi_get_root hello_result)

theorem greeting_depends_on_hostname_only_witness:
  "host_name (booted (Inr ''node-7'')) = Inr ''node-7'' \<and>
   host_name ((booted (Inr ''node-7''))\<lparr>environ := [(''PORT'', ''80'')], effects := [Lookup]\<rparr>)
     = Inr ''node-7'' \<and>
   fst (wsgi_app (plain_request GET ''/'') (booted (Inr ''node-7''))) =
   fst (wsgi_app ((plain_request GET ''/'')\<lparr>req_query := ''x=1'', req_body := ''payload''\<rparr>)
     ((booted (Inr ''node-7''))\<lparr>environ := [(''PORT'', ''80'')], effects := [Lookup]\<rparr>))"
proof -
  let ?w1 = "booted (Inr ''node-7'')"
  let ?w2 = "(booted (Inr ''node-7''))\<lparr>environ := [(''PORT'', ''80'')], effects := [Lookup]\<rparr>"
  let ?rq1 = "plain_request GET ''/''"
  let ?rq2 = "(plain_request GET ''/'')\<lparr>req_query := ''x=1'', req_body := ''payload''\<rparr>"
  have n1: "host_name ?w1 = Inr ''node-7''" by (simp add: booted_def)
  have n2: "host_name ?w2 = Inr ''node-7''" by (simp add: booted_def)
  have p1: "prog ?w1 = app" by (simp add: booted_def)
  have p2: "prog ?w2 = app" by (simp add: booted_def)
  have m1: "req_method ?rq1 = GET" by (simp add: plain_request_def)
  have q1: "req_path ?rq1 = ''/''" by (simp add: plain_request_def)
  have m2: "req_method ?rq2 = GET" by (simp add: plain_request_def)
  have q2: "req_path ?rq2 = ''/''" by (simp add: plain_request_def)
  from greeting_depends_on_hostname_only [OF n1 n2 p1 p2 m1 q1 m2 q2]
  show ?thesis using n1 n2 by blast
qed

subsection \<open>The health route\<close>

text \<open>
  C2. A GET request to \<open>/health\<close> is answered with status 200 and the JSON object whose
  one key \<open>status\<close> holds \<open>healthy\<close>, in every world and whatever else the request
  carries.
\<close>

theorem health_get:
  assumes "prog w = app" and "req_method rq = GET" and "req_path rq = ''/health''"
  shows "fst (health w) = Inr (fst (wsgi_app rq w)) \<and>
         fst (wsgi_app rq w) =
           \<lparr>status = 200, mimetype = ''application/json'',
            body = Json (JObj [(''status'', JStr ''healthy'')])\<rparr>"
  using assms by (simp add: wsgi_get_health health_def jsonify_def)

theorem health_get_witness:
  "prog (booted (Inl OSError)) = app \<and>
   req_method (plain_request GET ''/health'') = GET \<and>
   req_path (plain_request GET ''/health'') = ''/health'' \<and>
   fst (wsgi_app (plain_request GET ''/health'') (booted (Inl OSError))) =
     \<lparr>status = 200, mimetype = ''application/json'',
      body = Json (JObj [(''status'', JStr ''healthy'')])\<rparr>"
proof -
  have p: "prog (booted (Inl OSError)) = app" by (simp add: booted_def)
  have m: "req_method (plain_request GET ''/health'') = GET" by (simp add: plain_request_def)
  have q: "req_path (plain_request GET ''/health'') = ''/health''"
    by (simp add: plain_request_def)
  from health_get [OF p m q] show ?thesis using p m q by blast
qed

subsection \<open>Everything else\<close>

text \<open>
  C4. A GET request to a path other than \<open>/\<close> and \<open>/health\<close> gets the default "not found"
  response, status 404, which is not a 2xx status; the world is left as it was, so no
  view function was called.
\<close>

theorem undefined_path_not_found:
  assumes "prog w = app" and "req_method rq = GET"
    and "req_path rq \<noteq> ''/''" and "req_path rq \<noteq> ''/health''"
  shows "wsgi_app rq w = (abort 404, w) \<and>
         status (fst (wsgi_app rq w)) = 404 \<and>
         \<not> (200 \<le> status (fst (wsgi_app rq w)) \<and> status (fst (wsgi_app rq w)) < 300)"
  using assms by (simp add: wsgi_app_def match_other abort_def)

theorem undefined_path_not_found_witness:
  "prog (booted (Inr ''node-7'')) = app \<and>
   req_method (plain_request GET ''/healthz'') = GET \<and>
   req_path (plain_request GET ''/healthz'') \<noteq> ''/'' \<and>
   req_path (plain_request GET ''/healthz'') \<noteq> ''/health'' \<and>
   wsgi_app (plain_request GET ''/healthz'') (booted (Inr ''node-7'')) =
     (abort 404, booted (Inr ''node-7''))"
proof -
  have p: "prog (booted (Inr ''node-7'')) = app" by (simp add: booted_def)
  have m: "req_method (plain_request GET ''/healthz'') = GET" by (simp add: plain_request_def)
  have q1: "req_path (plain_request GET ''/healthz'') \<noteq> ''/''"
    by (simp add: plain_request_def)
  have q2: "req_path (plain_request GET ''/healthz'') \<noteq> ''/health''"
    by (simp add: plain_request_def)
  from undefined_path_not_found [OF p m q1 q2] show ?thesis using p m q1 q2 by blast
qed

text \<open>
  C10. Both rules accept GET, HEAD and OPTIONS and nothing else: a request to \<open>/\<close> or
  \<open>/health\<close> under any other method is answered with status 405 and leaves the world as
  it was, so neither handler was called.
\<close>

theorem other_methods_not_allowed:
  assumes "prog w = app"
    and "req_path rq = ''/'' \<or> req_path rq = ''/health''"
    and "req_method rq \<notin> {GET, HEAD, OPTIONS}"
  shows "map rule_path (url_map app) = [''/'', ''/health''] \<and>
         map rule_methods (url_map app) = [[GET, HEAD, OPTIONS], [GET, HEAD, OPTIONS]] \<and>
         wsgi_app rq w = (abort 405, w) \<and>
         status (fst (wsgi_app rq w)) = 405"
proof -
  have rules: "map rule_path (url_map app) = [''/'', ''/health''] \<and>
      map rule_methods (url_map app) = [[GET, HEAD, OPTIONS], [GET, HEAD, OPTIONS]]"
    by (simp add: url_map_app)
  have m: "match_request (url_map app) (req_method rq) (req_path rq) False = MethodNotAllowed"
    using assms(2,3) by (auto simp: match_root match_health)
  have "wsgi_app rq w = (abort 405, w)"
    using assms(1) m by (simp add: wsgi_app_def)
  then show ?thesis using rules by (simp add: abort_def)
qed

theorem other_methods_not_allowed_witness:
  "prog (booted (Inr ''node-7'')) = app \<and>
   (req_path (plain_request POST ''/'') = ''/'' \<or>
    req_path (plain_request POST ''/'') = ''/health'') \<and>
   req_method (plain_request POST ''/'') \<notin> {GET, HEAD, OPTIONS} \<and>
   wsgi_app (plain_request POST ''/'') (booted (Inr ''node-7'')) =
     (abort 405, booted (Inr ''node-7''))"
proof -
  have p: "prog (booted (Inr ''node-7'')) = app" by (simp add: booted_def)
  have q: "req_path (plain_request POST ''/'') = ''/'' \<or>
      req_path (plain_request POST ''/'') = ''/health''" by (simp add: plain_request_def)
  have m: "req_method (plain_request POST ''/'') \<notin> {GET, HEAD, OPTIONS}"
    by (simp add: plain_request_def)
  from other_methods_not_allowed [OF p q m] show ?thesis using p q m by blast
qed

subsection \<open>State and start-up\<close>

text \<open>
  C6. No handler changes the program's state: \<open>hello\<close>, \<open>health\<close> and the handling of a
  whole request return the application object they were given, a sequence of events of
  any length and order leaves it as it was at the start, and a sequence of requests
  leaves the whole world as it was apart from the record of what was observed.
\<close>

theorem handlers_keep_state:
  "prog (snd (hello w)) = prog w \<and>
   prog (snd (health w)) = prog w \<and>
   prog (snd (wsgi_app rq w)) = prog w \<and>
   prog (snd (serve evs w)) = prog w \<and>
   (\<exists>fx. snd (serve (map Req rqs) w) = w\<lparr>effects := effects w @ fx\<rparr>)"
  using serve_requests_frame [of rqs w]
  by (simp add: hello_result health_def wsgi_app_prog serve_prog)




end
